theory Spec2Isabelle
  imports Main "HOL-Library.Multiset" "HOL-Library.Char_ord" "HOL-Library.List_Lexorder"
begin

section \<open>Values of the provider payload\<close>

text \<open>
  The provider's answer is JSON, read by \<^verbatim>\<open>response.json()\<close> into Python values.
  A JSON boolean becomes a Python \<^verbatim>\<open>bool\<close>, a subclass of \<^verbatim>\<open>int\<close> that
  behaves as 1 or 0 in every operation of app.py (truthiness, \<^verbatim>\<open>==\<close>, \<^verbatim>\<open><=\<close>,
  hashing), so it is read here as \<open>JInt 1\<close> or \<open>JInt 0\<close>. Floating point numbers
  are left out: the provider's timestamps are whole epoch seconds.
  A dict is the list of its items, keys distinct.
\<close>

datatype json =
    JNull
  | JInt int
  | JStr string
  | JArr "json list"
  | JObj "(string \<times> json) list"

datatype py_error = AttributeError | TypeError | KeyError | OverflowError

text \<open>Python's truth value of an object, as used by \<^verbatim>\<open>or\<close> and \<^verbatim>\<open>if x else y\<close>.\<close>

fun truthy :: "json \<Rightarrow> bool" where
  "truthy JNull = False"
| "truthy (JInt n) = (n \<noteq> 0)"
| "truthy (JStr s) = (s \<noteq> [])"
| "truthy (JArr xs) = (xs \<noteq> [])"
| "truthy (JObj kvs) = (kvs \<noteq> [])"

text \<open>Lists and dicts are not hashable: a set operation on one raises TypeError.\<close>

fun hashable :: "json \<Rightarrow> bool" where
  "hashable (JArr xs) = False"
| "hashable (JObj kvs) = False"
| "hashable v = True"

section \<open>The records of app.py\<close>

text \<open>
  The dict built by \<^verbatim>\<open>process_flight_data\<close> (lines 103-110). The airport and the
  registration are stored as the payload has them, without a look at their type.
\<close>

record flight_info =
  tipo :: string
  numero_vuelo :: string
  hora :: string
  aeropuerto :: json
  matricula :: json
  timestamp :: int

text \<open>
  The dict built by \<^verbatim>\<open>combine_arrivals_departures\<close>. The key
  \<^verbatim>\<open>'orden_temporal'\<close> exists only between lines 303 and 306 of \<^verbatim>\<open>main\<close>:
  \<open>None\<close> is the key being absent.
\<close>

record combined =
  llegada :: string
  salida :: string
  hora_llegada :: string
  hora_salida :: string
  origen :: json
  destino :: json
  row_matricula :: json
  orden_temporal :: "string option"

section \<open>process_flight_data\<close>

text \<open>
  \<^verbatim>\<open>d.get(key, default)\<close>: the value under the key, the default when the key is absent;
  on anything but a dict the attribute \<^verbatim>\<open>get\<close> does not exist.
\<close>

fun py_get :: "json \<Rightarrow> string \<Rightarrow> json \<Rightarrow> py_error + json" where
  "py_get (JObj kvs) k dflt = Inr (case map_of kvs k of Some v \<Rightarrow> v | None \<Rightarrow> dflt)"
| "py_get v k dflt = Inl AttributeError"

text \<open>A chain \<^verbatim>\<open>v.get(k1, d1).get(k2, d2)...\<close>, stopped by the first error.\<close>

fun get_path :: "json \<Rightarrow> (string \<times> json) list \<Rightarrow> py_error + json" where
  "get_path v [] = Inr v"
| "get_path v ((k, dflt) # rest) =
     (case py_get v k dflt of Inl e \<Rightarrow> Inl e | Inr v' \<Rightarrow> get_path v' rest)"

definition py_bind :: "py_error + 'a \<Rightarrow> ('a \<Rightarrow> py_error + 'b) \<Rightarrow> py_error + 'b" where
  "py_bind m k = (case m of Inl e \<Rightarrow> Inl e | Inr v \<Rightarrow> k v)"

text \<open>Lines 72-73: \<^verbatim>\<open>if flight_number.startswith('AR'): flight_number = flight_number[2:]\<close>.\<close>

definition strip_carrier_prefix :: "string \<Rightarrow> string" where
  "strip_carrier_prefix flight_number =
     (if take 2 flight_number = ''AR'' then drop 2 flight_number else flight_number)"

text \<open>Line 105: \<^verbatim>\<open>f"AR{flight_number}"\<close>.\<close>

definition add_carrier_prefix :: "string \<Rightarrow> string" where
  "add_carrier_prefix flight_number = ''AR'' @ flight_number"

text \<open>The two steps that take the provider's flight number to the stored one.\<close>

definition normalize_flight_number :: "string \<Rightarrow> string" where
  "normalize_flight_number raw = add_carrier_prefix (strip_carrier_prefix raw)"

text \<open>
  Lines 99-101: \<^verbatim>\<open>datetime.fromtimestamp(flight_time, tz=art_tz).strftime('%H:%M')\<close>
  with \<^verbatim>\<open>art_tz\<close> three hours behind UTC. A \<^verbatim>\<open>datetime\<close> holds the years 1 to
  9999 only: outside them the call raises, in UTC or once moved to the zone.
\<close>

definition two_digits :: "nat \<Rightarrow> string" where
  "two_digits n = [''0123456789'' ! (n div 10), ''0123456789'' ! (n mod 10)]"

definition hora_art :: "int \<Rightarrow> py_error + string" where
  "hora_art flight_time =
     (if flight_time < - 62135596800 + 10800 \<or> 253402300799 < flight_time
      then Inl OverflowError
      else let local_seconds = flight_time - 10800
           in Inr (two_digits (nat (local_seconds div 3600 mod 24)) @ '':'' @
                   two_digits (nat (local_seconds div 60 mod 60))))"

text \<open>
  Lines 68-69: the provider's flight number, \<^verbatim>\<open>'default'\<close> or else \<^verbatim>\<open>'number'\<close>
  (\<^verbatim>\<open>a or b\<close> is \<^verbatim>\<open>a\<close> when \<^verbatim>\<open>a\<close> is true, else \<^verbatim>\<open>b\<close>).
\<close>

definition flight_number_raw :: "json \<Rightarrow> py_error + json" where
  "flight_number_raw flight =
     py_bind (get_path flight
                [(''flight'', JObj []), (''identification'', JObj []), (''number'', JObj [])])
       (\<lambda>flight_number_data.
     py_bind (py_get flight_number_data ''default'' (JStr '''')) (\<lambda>number_default.
     if truthy number_default then Inr number_default
     else py_get flight_number_data ''number'' (JStr '''')))"

text \<open>Lines 79-84: the estimated time if it is true, else the scheduled time.\<close>

definition flight_time_of :: "json \<Rightarrow> string \<Rightarrow> py_error + json" where
  "flight_time_of flight flight_type =
     py_bind (get_path flight [(''flight'', JObj []), (''time'', JObj [])]) (\<lambda>time_data.
     py_bind (get_path time_data
                [(''scheduled'', JObj []),
                 (if flight_type = ''arrivals'' then ''arrival'' else ''departure'', JInt 0)])
       (\<lambda>scheduled_time.
     py_bind (get_path time_data
                [(''estimated'', JObj []),
                 (if flight_type = ''arrivals'' then ''arrival'' else ''departure'', JInt 0)])
       (\<lambda>estimated_time.
     Inr (if truthy estimated_time then estimated_time else scheduled_time))))"

text \<open>
  Lines 58-112, the body of the loop for one flight. \<open>Inl\<close> is an exception, caught at
  line 114 (the flight is skipped with a message); \<open>Inr None\<close> is one of the two
  \<^verbatim>\<open>continue\<close>; \<open>Inr (Some flight_info)\<close> is the dict appended.
  \<^verbatim>\<open>startswith\<close> exists on a string only, and the comparison of line 87 with the
  integer bounds raises TypeError on anything but a number.
\<close>

definition process_flight ::
  "json \<Rightarrow> string \<Rightarrow> int \<Rightarrow> int \<Rightarrow> py_error + flight_info option" where
  "process_flight flight flight_type start_timestamp end_timestamp =
     py_bind (get_path flight [(''flight'', JObj []), (''airline'', JObj [])]) (\<lambda>airline.
     py_bind (get_path airline [(''code'', JObj []), (''iata'', JStr '''')]) (\<lambda>airline_code.
     if airline_code \<noteq> JStr ''AR'' then Inr None else
     py_bind (flight_number_raw flight) (\<lambda>flight_number_0.
     py_bind (case flight_number_0 of
                JStr s \<Rightarrow> Inr (strip_carrier_prefix s)
              | _ \<Rightarrow> Inl AttributeError) (\<lambda>flight_number.
     py_bind (get_path flight
                [(''flight'', JObj []), (''aircraft'', JObj []), (''registration'', JStr '''')])
       (\<lambda>registration.
     py_bind (flight_time_of flight flight_type) (\<lambda>flight_time_0.
     py_bind (case flight_time_0 of
                JInt t \<Rightarrow> Inr t
              | _ \<Rightarrow> Inl TypeError) (\<lambda>flight_time.
     if \<not> (start_timestamp \<le> flight_time \<and> flight_time \<le> end_timestamp) then Inr None else
     py_bind (if flight_type = ''arrivals''
              then get_path flight
                     [(''flight'', JObj []), (''airport'', JObj []), (''origin'', JObj []),
                      (''code'', JObj []), (''iata'', JStr '''')]
              else get_path flight
                     [(''flight'', JObj []), (''airport'', JObj []), (''destination'', JObj []),
                      (''code'', JObj []), (''iata'', JStr '''')]) (\<lambda>airport.
     py_bind (if flight_time \<noteq> 0 then hora_art flight_time else Inr '''') (\<lambda>time_str.
     Inr (Some \<lparr>tipo = (if flight_type = ''arrivals'' then ''Llegada'' else ''Salida''),
                numero_vuelo = add_carrier_prefix flight_number,
                hora = time_str,
                aeropuerto = airport,
                matricula = registration,
                timestamp = flight_time\<rparr>))))))))))"

fun process_flight_data :: "json list \<Rightarrow> string \<Rightarrow> int \<Rightarrow> int \<Rightarrow> flight_info list" where
  "process_flight_data [] flight_type start_timestamp end_timestamp = []"
| "process_flight_data (flight # rest) flight_type start_timestamp end_timestamp =
     (case process_flight flight flight_type start_timestamp end_timestamp of
        Inr (Some flight_info) \<Rightarrow>
          flight_info # process_flight_data rest flight_type start_timestamp end_timestamp
      | _ \<Rightarrow> process_flight_data rest flight_type start_timestamp end_timestamp)"

section \<open>combine_arrivals_departures\<close>

definition exception_vuelos :: "string set" where
  "exception_vuelos = {''AR1550'', ''AR1587'', ''AR1552'', ''AR1551'', ''AR1553''}"

text \<open>The three dict literals of the function: lines 134-142 and 183-191, 144-152 and
  198-206, 170-178.\<close>

definition solo_llegada :: "flight_info \<Rightarrow> combined" where
  "solo_llegada flight =
     \<lparr>llegada = numero_vuelo flight, salida = '''',
      hora_llegada = hora flight, hora_salida = '''',
      origen = aeropuerto flight, destino = JStr '''',
      row_matricula = matricula flight, orden_temporal = None\<rparr>"

definition solo_salida :: "flight_info \<Rightarrow> combined" where
  "solo_salida flight =
     \<lparr>llegada = '''', salida = numero_vuelo flight,
      hora_llegada = '''', hora_salida = hora flight,
      origen = JStr '''', destino = aeropuerto flight,
      row_matricula = matricula flight, orden_temporal = None\<rparr>"

definition pareja :: "flight_info \<Rightarrow> flight_info \<Rightarrow> combined" where
  "pareja arrival matching_departure =
     \<lparr>llegada = numero_vuelo arrival, salida = numero_vuelo matching_departure,
      hora_llegada = hora arrival, hora_salida = hora matching_departure,
      origen = aeropuerto arrival, destino = aeropuerto matching_departure,
      row_matricula = matricula arrival, orden_temporal = None\<rparr>"

text \<open>The state of the three loops: \<^verbatim>\<open>combined_data\<close> and \<^verbatim>\<open>processed_matriculas\<close>.\<close>

type_synonym comb_state = "combined list \<times> json set"

text \<open>Lines 131-153, the loop over \<^verbatim>\<open>arrivals + departures\<close>.\<close>

fun exception_pass :: "flight_info list \<Rightarrow> comb_state \<Rightarrow> py_error + comb_state" where
  "exception_pass [] st = Inr st"
| "exception_pass (flight # rest) (combined_data, processed_matriculas) =
     (if numero_vuelo flight \<in> exception_vuelos then
        (if \<not> hashable (matricula flight) then Inl TypeError
         else exception_pass rest
                (combined_data @
                   [if tipo flight = ''Llegada'' then solo_llegada flight
                    else solo_salida flight],
                 insert (matricula flight) processed_matriculas))
      else exception_pass rest (combined_data, processed_matriculas))"

text \<open>
  Lines 161-167, the inner loop with its \<^verbatim>\<open>break\<close>. The membership test is
  evaluated only after the comparison of the registrations succeeded (\<^verbatim>\<open>and\<close>
  short-circuits), and only then can it raise.
\<close>

fun matching_departure ::
  "flight_info \<Rightarrow> json set \<Rightarrow> flight_info list \<Rightarrow> py_error + flight_info option" where
  "matching_departure arrival processed_matriculas [] = Inr None"
| "matching_departure arrival processed_matriculas (departure # rest) =
     (if matricula departure = matricula arrival then
        (if \<not> hashable (matricula departure) then Inl TypeError
         else if matricula departure \<notin> processed_matriculas \<and>
                 numero_vuelo departure \<notin> exception_vuelos
              then Inr (Some departure)
              else matching_departure arrival processed_matriculas rest)
      else matching_departure arrival processed_matriculas rest)"

text \<open>Lines 156-192, the loop over \<^verbatim>\<open>arrivals\<close>.\<close>

fun matching_pass ::
  "flight_info list \<Rightarrow> flight_info list \<Rightarrow> comb_state \<Rightarrow> py_error + comb_state" where
  "matching_pass [] departures st = Inr st"
| "matching_pass (arrival # rest) departures (combined_data, processed_matriculas) =
     (if \<not> hashable (matricula arrival) then Inl TypeError
      else if matricula arrival \<in> processed_matriculas \<or>
              numero_vuelo arrival \<in> exception_vuelos
      then matching_pass rest departures (combined_data, processed_matriculas)
      else
        (case matching_departure arrival processed_matriculas departures of
           Inl e \<Rightarrow> Inl e
         | Inr (Some d) \<Rightarrow>
             matching_pass rest departures
               (combined_data @ [pareja arrival d],
                insert (matricula d) (insert (matricula arrival) processed_matriculas))
         | Inr None \<Rightarrow>
             matching_pass rest departures
               (combined_data @ [solo_llegada arrival],
                insert (matricula arrival) processed_matriculas)))"

text \<open>Lines 195-207, the loop over \<^verbatim>\<open>departures\<close>.\<close>

fun leftover_pass :: "flight_info list \<Rightarrow> comb_state \<Rightarrow> py_error + comb_state" where
  "leftover_pass [] st = Inr st"
| "leftover_pass (departure # rest) (combined_data, processed_matriculas) =
     (if \<not> hashable (matricula departure) then Inl TypeError
      else if matricula departure \<notin> processed_matriculas \<and>
              numero_vuelo departure \<notin> exception_vuelos
      then leftover_pass rest
             (combined_data @ [solo_salida departure],
              insert (matricula departure) processed_matriculas)
      else leftover_pass rest (combined_data, processed_matriculas))"

definition combine_arrivals_departures ::
  "flight_info list \<Rightarrow> flight_info list \<Rightarrow> py_error + combined list" where
  "combine_arrivals_departures arrivals departures =
     (case exception_pass (arrivals @ departures) ([], {}) of
        Inl e \<Rightarrow> Inl e
      | Inr st1 \<Rightarrow>
          (case matching_pass arrivals departures st1 of
             Inl e \<Rightarrow> Inl e
           | Inr st2 \<Rightarrow>
               (case leftover_pass departures st2 of
                  Inl e \<Rightarrow> Inl e
                | Inr (combined_data, processed_matriculas) \<Rightarrow> Inr combined_data)))"

section \<open>main\<close>

text \<open>Line 303: the sort key of an item, and the item with the key
  \<^verbatim>\<open>'orden_temporal'\<close> set.\<close>

definition sort_key_of :: "combined \<Rightarrow> string" where
  "sort_key_of item =
     (if hora_llegada item \<noteq> '''' then hora_llegada item else hora_salida item)"

definition set_orden_temporal :: "combined \<Rightarrow> combined" where
  "set_orden_temporal item = item\<lparr>orden_temporal := Some (sort_key_of item)\<rparr>"

text \<open>
  Line 304: \<^verbatim>\<open>list.sort\<close> first computes the key of every item (\<^verbatim>\<open>x['orden_temporal']\<close>
  raises KeyError where the key is absent), then sorts by the keys, stably.
\<close>

fun sort_keys :: "combined list \<Rightarrow> py_error + (string \<times> combined) list" where
  "sort_keys [] = Inr []"
| "sort_keys (x # xs) =
     (case orden_temporal x of
        None \<Rightarrow> Inl KeyError
      | Some k \<Rightarrow> (case sort_keys xs of Inl e \<Rightarrow> Inl e | Inr kxs \<Rightarrow> Inr ((k, x) # kxs)))"

definition sort_by_orden_temporal :: "combined list \<Rightarrow> py_error + combined list" where
  "sort_by_orden_temporal xs =
     (case sort_keys xs of Inl e \<Rightarrow> Inl e | Inr kxs \<Rightarrow> Inr (map snd (sort_key fst kxs)))"

text \<open>Lines 305-306: \<^verbatim>\<open>del item['orden_temporal']\<close> for every item.\<close>

fun del_orden_temporal :: "combined list \<Rightarrow> py_error + combined list" where
  "del_orden_temporal [] = Inr []"
| "del_orden_temporal (item # rest) =
     (case orden_temporal item of
        None \<Rightarrow> Inl KeyError
      | Some k \<Rightarrow>
          (case del_orden_temporal rest of
             Inl e \<Rightarrow> Inl e
           | Inr rest' \<Rightarrow> Inr (item\<lparr>orden_temporal := None\<rparr> # rest')))"

text \<open>
  \<^verbatim>\<open>main\<close> from line 278 on, with what the two requests returned and the two bounds of
  \<^verbatim>\<open>get_time_range\<close> as arguments. An error is an exception that leaves \<^verbatim>\<open>main\<close>.
\<close>

definition main :: "json list \<Rightarrow> json list \<Rightarrow> int \<Rightarrow> int \<Rightarrow> py_error + combined list" where
  "main arrivals_raw departures_raw start_timestamp end_timestamp =
     (let arrivals_processed =
            process_flight_data arrivals_raw ''arrivals'' start_timestamp end_timestamp;
          departures_processed =
            process_flight_data departures_raw ''departures'' start_timestamp end_timestamp
      in if arrivals_processed = [] \<and> departures_processed = [] then Inr []
         else py_bind (combine_arrivals_departures arrivals_processed departures_processed)
           (\<lambda>combined_data.
              if combined_data = [] then Inr []
              else py_bind (sort_by_orden_temporal (map set_orden_temporal combined_data))
                     del_orden_temporal))"

section \<open>Notions used to state the properties\<close>

definition is_exception :: "flight_info \<Rightarrow> bool" where
  "is_exception flight = (numero_vuelo flight \<in> exception_vuelos)"

text \<open>The row of an exception flight, lines 133-152: the flight alone, on the side
  its \<^verbatim>\<open>'tipo'\<close> says.\<close>

definition excepcion_row :: "flight_info \<Rightarrow> combined" where
  "excepcion_row flight =
     (if tipo flight = ''Llegada'' then solo_llegada flight else solo_salida flight)"

text \<open>A row that shows the number of an exception flight, on either side.\<close>

definition names_exception :: "combined \<Rightarrow> bool" where
  "names_exception row = (llegada row \<in> exception_vuelos \<or> salida row \<in> exception_vuelos)"

text \<open>The registrations carried by the exception flights of a list.\<close>

definition exception_matriculas :: "flight_info list \<Rightarrow> json set" where
  "exception_matriculas flights = set (map matricula (filter is_exception flights))"

text \<open>
  The flights of a list that the second or the third loop gives a row, when the loop
  starts with the registrations \<open>P\<close> consumed: the flight is no exception, and its
  registration is free when the loop reaches it.
\<close>

fun first_free :: "json set \<Rightarrow> flight_info list \<Rightarrow> flight_info list" where
  "first_free P [] = []"
| "first_free P (f # fs) =
     (if matricula f \<in> P \<or> is_exception f then first_free P fs
      else f # first_free (insert (matricula f) P) fs)"

text \<open>
  The same flights, position by position: the flight at position \<open>i\<close> is no exception,
  its registration is not in \<open>P\<close>, and no flight before it in the list carries that
  registration.
\<close>

definition kept :: "json set \<Rightarrow> flight_info list \<Rightarrow> flight_info list" where
  "kept P xs =
     map (nth xs)
       (filter (\<lambda>i. \<not> is_exception (xs ! i) \<and> matricula (xs ! i) \<notin> P \<and>
                     matricula (xs ! i) \<notin> matricula ` set (take i xs))
          [0..<length xs])"

text \<open>The test of lines 163-165 on a departure, for an arrival and the registrations
  consumed so far.\<close>

definition eligible :: "flight_info \<Rightarrow> json set \<Rightarrow> flight_info \<Rightarrow> bool" where
  "eligible arrival processed_matriculas departure =
     (matricula departure = matricula arrival \<and>
      matricula departure \<notin> processed_matriculas \<and>
      numero_vuelo departure \<notin> exception_vuelos)"

text \<open>The same test for an arrival whose registration is free.\<close>

definition candidate :: "flight_info \<Rightarrow> flight_info \<Rightarrow> bool" where
  "candidate arrival d = (matricula d = matricula arrival \<and> \<not> is_exception d)"

definition row_for :: "flight_info list \<Rightarrow> flight_info \<Rightarrow> combined" where
  "row_for departures arrival =
     (case List.find (candidate arrival) departures of
        Some d \<Rightarrow> pareja arrival d
      | None \<Rightarrow> solo_llegada arrival)"

definition found :: "flight_info list \<Rightarrow> flight_info \<Rightarrow> flight_info list" where
  "found ds a = (case List.find (candidate a) ds of Some d \<Rightarrow> [d] | None \<Rightarrow> [])"

text \<open>
  Where a row comes from: an arrival alone, a departure alone, or an arrival with a
  departure. \<open>render\<close> is the row, \<open>llegadas_de\<close> and \<open>salidas_de\<close> are the flights
  the row shows on its arrival side and on its departure side.
\<close>

datatype fila =
    Llegada_sola flight_info
  | Salida_sola flight_info
  | Pareja flight_info flight_info

fun render :: "fila \<Rightarrow> combined" where
  "render (Llegada_sola a) = solo_llegada a"
| "render (Salida_sola d) = solo_salida d"
| "render (Pareja a d) = pareja a d"

fun llegadas_de :: "fila \<Rightarrow> flight_info list" where
  "llegadas_de (Llegada_sola a) = [a]"
| "llegadas_de (Salida_sola d) = []"
| "llegadas_de (Pareja a d) = [a]"

fun salidas_de :: "fila \<Rightarrow> flight_info list" where
  "salidas_de (Llegada_sola a) = []"
| "salidas_de (Salida_sola d) = [d]"
| "salidas_de (Pareja a d) = [d]"

definition excepcion_fila :: "flight_info \<Rightarrow> fila" where
  "excepcion_fila f = (if tipo f = ''Llegada'' then Llegada_sola f else Salida_sola f)"

definition fila_for :: "flight_info list \<Rightarrow> flight_info \<Rightarrow> fila" where
  "fila_for departures arrival =
     (case List.find (candidate arrival) departures of
        Some d \<Rightarrow> Pareja arrival d
      | None \<Rightarrow> Llegada_sola arrival)"

text \<open>A flight record for the examples: kind, number, time of day and registration.\<close>

abbreviation vuelo :: "string \<Rightarrow> string \<Rightarrow> string \<Rightarrow> string \<Rightarrow> flight_info" where
  "vuelo t n h r \<equiv>
     \<lparr>tipo = t, numero_vuelo = n, hora = h, aeropuerto = JStr ''AEP'',
      matricula = JStr r, timestamp = 1700000000\<rparr>"

text \<open>A flight object of the provider for the examples, of airline AR and from AEP:
  number, registration, scheduled and estimated time of arrival.\<close>

abbreviation raw_flight :: "string \<Rightarrow> string \<Rightarrow> int \<Rightarrow> int \<Rightarrow> json" where
  "raw_flight num reg sch est \<equiv>
     JObj [(''flight'', JObj [
       (''airline'', JObj [(''code'', JObj [(''iata'', JStr ''AR'')])]),
       (''identification'', JObj [(''number'', JObj [(''default'', JStr num)])]),
       (''aircraft'', JObj [(''registration'', JStr reg)]),
       (''time'', JObj [(''scheduled'', JObj [(''arrival'', JInt sch)]),
                        (''estimated'', JObj [(''arrival'', JInt est)])]),
       (''airport'', JObj [(''origin'', JObj [(''code'', JObj [(''iata'', JStr ''AEP'')])])])])]"

section \<open>The three loops in closed form\<close>

lemma exception_pass_eq:
  "\<forall>f\<in>set fs. hashable (matricula f) \<Longrightarrow>
   exception_pass fs (cd, P) =
     Inr (cd @ map excepcion_row (filter is_exception fs), P \<union> exception_matriculas fs)"
  by (induction fs arbitrary: cd P)
     (auto simp: is_exception_def excepcion_row_def exception_matriculas_def)

lemma matching_departure_find:
  "hashable (matricula a) \<Longrightarrow>
   matching_departure a P ds = Inr (List.find (eligible a P) ds)"
  by (induction ds) (auto simp: eligible_def)

lemma matching_departure_free:
  "hashable (matricula a) \<Longrightarrow> matricula a \<notin> P \<Longrightarrow>
   matching_departure a P ds = Inr (List.find (candidate a) ds)"
  by (induction ds) (auto simp: candidate_def is_exception_def)

lemma find_candidate_matricula:
  "List.find (candidate a) ds = Some d \<Longrightarrow> matricula d = matricula a"
  by (auto simp: find_Some_iff candidate_def)

lemma find_candidate_not_exception:
  "List.find (candidate a) ds = Some d \<Longrightarrow> numero_vuelo d \<notin> exception_vuelos"
  by (auto simp: find_Some_iff candidate_def is_exception_def)

lemma matching_pass_eq:
  "\<forall>f\<in>set as. hashable (matricula f) \<Longrightarrow>
   matching_pass as ds (cd, P) =
     Inr (cd @ map (row_for ds) (first_free P as), P \<union> matricula ` set (first_free P as))"
proof (induction as arbitrary: cd P)
  case Nil
  then show ?case by simp
next
  case (Cons a as)
  show ?case
  proof (cases "matricula a \<in> P \<or> is_exception a")
    case True
    with Cons show ?thesis by (auto simp: is_exception_def)
  next
    case False
    then have free: "matricula a \<notin> P" and ne: "numero_vuelo a \<notin> exception_vuelos"
      by (auto simp: is_exception_def)
    from Cons.prems have h: "hashable (matricula a)" by simp
    show ?thesis
    proof (cases "List.find (candidate a) ds")
      case None
      with Cons free ne h False show ?thesis
        by (simp add: matching_departure_free row_for_def)
    next
      case (Some d)
      then have "matricula d = matricula a" by (rule find_candidate_matricula)
      with Some Cons free ne h False show ?thesis
        by (simp add: matching_departure_free row_for_def)
    qed
  qed
qed

lemma leftover_pass_eq:
  "\<forall>f\<in>set ds. hashable (matricula f) \<Longrightarrow>
   leftover_pass ds (cd, P) =
     Inr (cd @ map solo_salida (first_free P ds), P \<union> matricula ` set (first_free P ds))"
  by (induction ds arbitrary: cd P) (auto simp: is_exception_def)

lemma combine_eq:
  assumes "\<forall>f\<in>set (arrivals @ departures). hashable (matricula f)"
  shows "combine_arrivals_departures arrivals departures =
     Inr (map excepcion_row (filter is_exception (arrivals @ departures)) @
          map (row_for departures)
            (first_free (exception_matriculas (arrivals @ departures)) arrivals) @
          map solo_salida
            (first_free (exception_matriculas (arrivals @ departures) \<union>
               matricula ` set (first_free (exception_matriculas (arrivals @ departures)) arrivals))
               departures))"
proof -
  from assms have ha: "\<forall>f\<in>set arrivals. hashable (matricula f)"
    and hd: "\<forall>f\<in>set departures. hashable (matricula f)" by auto
  show ?thesis
    unfolding combine_arrivals_departures_def
    by (simp add: exception_pass_eq[OF assms] matching_pass_eq[OF ha] leftover_pass_eq[OF hd])
qed

subsection \<open>The flights that get a row\<close>

lemma first_free_props:
  "f \<in> set (first_free P xs) \<Longrightarrow> f \<in> set xs \<and> \<not> is_exception f \<and> matricula f \<notin> P"
  by (induction xs arbitrary: P) (auto split: if_splits)

lemma filter_first_free:
  "filter (\<lambda>f. matricula f = r) (first_free P xs) =
     (if r \<in> P then []
      else case List.find (\<lambda>f. matricula f = r \<and> \<not> is_exception f) xs of
             None \<Rightarrow> [] | Some f \<Rightarrow> [f])"
  by (induction xs arbitrary: P) auto

lemma distinct_first_free: "distinct (map matricula (first_free P xs))"
  by (induction xs arbitrary: P) (auto dest: first_free_props)

lemma first_free_Un:
  "first_free (P \<union> R) xs = filter (\<lambda>f. matricula f \<notin> R) (first_free P xs)"
proof (induction xs arbitrary: P)
  case Nil
  show ?case by simp
next
  case (Cons x xs)
  show ?case
  proof (cases "matricula x \<in> P \<or> is_exception x")
    case True
    then show ?thesis using Cons.IH[of P] by auto
  next
    case False
    show ?thesis
    proof (cases "matricula x \<in> R")
      case True
      then have "insert (matricula x) P \<union> R = P \<union> R" by auto
      with False True Cons.IH[of "insert (matricula x) P"] show ?thesis by simp
    next
      case nr: False
      with False Cons.IH[of "insert (matricula x) P"] show ?thesis by simp
    qed
  qed
qed

lemma kept_Nil: "kept P [] = []"
  by (simp add: kept_def)

lemma kept_Cons:
  "kept P (x # xs) =
     (if \<not> is_exception x \<and> matricula x \<notin> P then [x] else []) @ kept (insert (matricula x) P) xs"
proof -
  have u: "[0..<length (x # xs)] = 0 # map Suc [0..<length xs]"
    by (simp add: upt_conv_Cons map_Suc_upt del: upt_Suc)
  have p: "(\<lambda>i. \<not> is_exception (xs ! i) \<and> matricula (xs ! i) \<notin> P \<and>
                matricula (xs ! i) \<noteq> matricula x \<and>
                matricula (xs ! i) \<notin> matricula ` set (take i xs)) =
           (\<lambda>i. \<not> is_exception (xs ! i) \<and> matricula (xs ! i) \<notin> insert (matricula x) P \<and>
                matricula (xs ! i) \<notin> matricula ` set (take i xs))"
    by (auto simp: fun_eq_iff)
  show ?thesis
    unfolding kept_def u by (simp add: filter_map comp_def p)
qed

lemma first_free_kept:
  "\<forall>f\<in>set xs. is_exception f \<longrightarrow> matricula f \<in> P \<Longrightarrow> first_free P xs = kept P xs"
proof (induction xs arbitrary: P)
  case Nil
  show ?case by (simp add: kept_Nil)
next
  case (Cons x xs)
  have ih: "first_free (insert (matricula x) P) xs = kept (insert (matricula x) P) xs"
    using Cons.prems by (intro Cons.IH) auto
  show ?case
  proof (cases "matricula x \<in> P")
    case True
    then have "insert (matricula x) P = P" by auto
    with ih True show ?thesis by (simp add: kept_Cons)
  next
    case False
    with Cons.prems have "\<not> is_exception x" by auto
    with ih False show ?thesis by (simp add: kept_Cons)
  qed
qed

subsection \<open>The fields of the rows\<close>

lemma row_for_fields:
  "row_matricula (row_for ds a) = matricula a"
  "llegada (row_for ds a) = numero_vuelo a"
  "salida (row_for ds a) =
     (case List.find (candidate a) ds of Some d \<Rightarrow> numero_vuelo d | None \<Rightarrow> '''')"
  "orden_temporal (row_for ds a) = None"
  by (auto simp: row_for_def pareja_def solo_llegada_def split: option.splits)

lemma excepcion_row_fields:
  "row_matricula (excepcion_row f) = matricula f"
  "llegada (excepcion_row f) = (if tipo f = ''Llegada'' then numero_vuelo f else '''')"
  "salida (excepcion_row f) = (if tipo f = ''Llegada'' then '''' else numero_vuelo f)"
  "orden_temporal (excepcion_row f) = None"
  by (auto simp: excepcion_row_def solo_llegada_def solo_salida_def)

lemma solo_salida_fields:
  "row_matricula (solo_salida f) = matricula f"
  "llegada (solo_salida f) = ''''"
  "salida (solo_salida f) = numero_vuelo f"
  "orden_temporal (solo_salida f) = None"
  by (auto simp: solo_salida_def)

lemma empty_not_exception: "'''' \<notin> exception_vuelos"
  by (simp add: exception_vuelos_def)

lemma exception_matriculas_mem:
  "f \<in> set fs \<Longrightarrow> is_exception f \<Longrightarrow> matricula f \<in> exception_matriculas fs"
  by (auto simp: exception_matriculas_def)

subsection \<open>Lists and multisets\<close>

lemma filter_map_none: "(\<And>x. x \<in> set xs \<Longrightarrow> \<not> Q (f x)) \<Longrightarrow> filter Q (map f xs) = []"
  by (induction xs) auto

lemma filter_map_all: "(\<And>x. x \<in> set xs \<Longrightarrow> Q (f x)) \<Longrightarrow> filter Q (map f xs) = map f xs"
  by (induction xs) auto

lemma find_cong_set: "(\<And>x. x \<in> set xs \<Longrightarrow> Q x = R x) \<Longrightarrow> List.find Q xs = List.find R xs"
  by (induction xs) auto

lemma mset_filter_disj:
  "(\<And>x. x \<in> set xs \<Longrightarrow> \<not> (p x \<and> q x)) \<Longrightarrow>
   mset (filter (\<lambda>x. p x \<or> q x) xs) = mset (filter p xs) + mset (filter q xs)"
  by (induction xs) auto

lemma mset_filter_split:
  "mset (filter p xs) + mset (filter (\<lambda>x. \<not> p x) xs) = mset xs"
  by (induction xs) auto

section \<open>Scenarios\<close>

text \<open>
  C1, as the specification states it: with the exception flight AR1550 (registration XYZ,
  10:00) as the only arrival and AR300 (registration XYZ, 11:00) as the only departure,
  the output would be the two rows AR1550 alone and AR300 alone. The function does not
  return these two rows.
\<close>

theorem scenario_exception_two_rows_counterexample:
  "combine_arrivals_departures
     [\<lparr>tipo = ''Llegada'', numero_vuelo = ''AR1550'', hora = ''10:00'',
       aeropuerto = JStr ''AEP'', matricula = JStr ''XYZ'', timestamp = 1700000000\<rparr>]
     [\<lparr>tipo = ''Salida'', numero_vuelo = ''AR300'', hora = ''11:00'',
       aeropuerto = JStr ''BRC'', matricula = JStr ''XYZ'', timestamp = 1700003600\<rparr>]
   \<noteq> Inr [\<lparr>llegada = ''AR1550'', salida = '''', hora_llegada = ''10:00'', hora_salida = '''',
            origen = JStr ''AEP'', destino = JStr '''', row_matricula = JStr ''XYZ'',
            orden_temporal = None\<rparr>,
          \<lparr>llegada = '''', salida = ''AR300'', hora_llegada = '''', hora_salida = ''11:00'',
            origen = JStr '''', destino = JStr ''BRC'', row_matricula = JStr ''XYZ'',
            orden_temporal = None\<rparr>]"
  by (simp add: combine_arrivals_departures_def exception_vuelos_def
        solo_llegada_def solo_salida_def)

text \<open>
  C1, amended: in that scenario the output is one row only, AR1550 alone as an arrival,
  whatever the airports and timestamps. The exception pass consumes the registration XYZ
  (line 153), so AR300 is neither paired (line 157) nor listed as a leftover departure
  (line 196).
\<close>

theorem scenario_exception_not_paired:
  "combine_arrivals_departures
     [\<lparr>tipo = ''Llegada'', numero_vuelo = ''AR1550'', hora = ''10:00'',
       aeropuerto = p, matricula = JStr ''XYZ'', timestamp = t\<rparr>]
     [\<lparr>tipo = ''Salida'', numero_vuelo = ''AR300'', hora = ''11:00'',
       aeropuerto = q, matricula = JStr ''XYZ'', timestamp = u\<rparr>]
   = Inr [\<lparr>llegada = ''AR1550'', salida = '''', hora_llegada = ''10:00'', hora_salida = '''',
            origen = p, destino = JStr '''', row_matricula = JStr ''XYZ'',
            orden_temporal = None\<rparr>]"
  by (simp add: combine_arrivals_departures_def exception_vuelos_def
        solo_llegada_def solo_salida_def)

section \<open>Exception isolation\<close>

text \<open>
  C3. Whenever the function returns (the registrations are hashable), the rows that show
  the number of an exception flight are exactly the rows of the exception flights, one
  row for each exception flight of the input, the flight alone (as an arrival or as a
  departure, as its kind says), in the order of \<^verbatim>\<open>arrivals + departures\<close>. So no
  paired row has an exception flight as a half: in every row, an exception number on one
  side comes with the other side empty. Which other flights share the registration plays
  no part.
\<close>

theorem exception_isolation:
  assumes "\<forall>f\<in>set (arrivals @ departures). hashable (matricula f)"
  shows "\<exists>out. combine_arrivals_departures arrivals departures = Inr out \<and>
           filter names_exception out =
             map excepcion_row (filter is_exception (arrivals @ departures)) \<and>
           (\<forall>row\<in>set out.
              (llegada row \<in> exception_vuelos \<longrightarrow>
                 salida row = '''' \<and> hora_salida row = '''' \<and> destino row = JStr '''') \<and>
              (salida row \<in> exception_vuelos \<longrightarrow>
                 llegada row = '''' \<and> hora_llegada row = '''' \<and> origen row = JStr ''''))"
proof -
  let ?P1 = "exception_matriculas (arrivals @ departures)"
  let ?KA = "first_free ?P1 arrivals"
  let ?KD = "first_free (?P1 \<union> matricula ` set ?KA) departures"
  let ?E = "map excepcion_row (filter is_exception (arrivals @ departures))"
  let ?out = "?E @ map (row_for departures) ?KA @ map solo_salida ?KD"
  have e: "filter names_exception ?E = ?E"
    by (rule filter_map_all)
       (auto simp: names_exception_def excepcion_row_fields is_exception_def)
  have a: "filter names_exception (map (row_for departures) ?KA) = []"
  proof (rule filter_map_none)
    fix x assume "x \<in> set ?KA"
    then have "\<not> is_exception x" by (auto dest: first_free_props)
    then show "\<not> names_exception (row_for departures x)"
      by (auto simp: names_exception_def row_for_fields is_exception_def empty_not_exception
               dest: find_candidate_not_exception split: option.splits)
  qed
  have d: "filter names_exception (map solo_salida ?KD) = []"
  proof (rule filter_map_none)
    fix x assume "x \<in> set ?KD"
    then have "\<not> is_exception x" by (auto dest: first_free_props)
    then show "\<not> names_exception (solo_salida x)"
      by (simp add: names_exception_def solo_salida_fields is_exception_def empty_not_exception)
  qed
  have f: "filter names_exception ?out = ?E"
    using e a d by simp
  have s: "(llegada row \<in> exception_vuelos \<longrightarrow>
              salida row = '''' \<and> hora_salida row = '''' \<and> destino row = JStr '''') \<and>
           (salida row \<in> exception_vuelos \<longrightarrow>
              llegada row = '''' \<and> hora_llegada row = '''' \<and> origen row = JStr '''')"
    if "row \<in> set ?out" for row
  proof (cases "names_exception row")
    case True
    with that have "row \<in> set (filter names_exception ?out)" by simp
    then have "row \<in> set ?E" unfolding f .
    then obtain x where "row = excepcion_row x" by auto
    then show ?thesis
      by (simp add: excepcion_row_def solo_llegada_def solo_salida_def empty_not_exception)
  next
    case False
    then show ?thesis by (simp add: names_exception_def)
  qed
  show ?thesis
    unfolding combine_eq[OF assms] using f s by blast
qed

theorem exception_isolation_witness:
  "\<exists>out. combine_arrivals_departures
            [vuelo ''Llegada'' ''AR1550'' ''10:00'' ''XYZ'', vuelo ''Llegada'' ''AR100'' ''10:30'' ''XYZ'']
            [vuelo ''Salida'' ''AR300'' ''11:00'' ''XYZ'', vuelo ''Salida'' ''AR1587'' ''12:00'' ''ABC'']
          = Inr out \<and>
          filter names_exception out =
            [solo_llegada (vuelo ''Llegada'' ''AR1550'' ''10:00'' ''XYZ''),
             solo_salida (vuelo ''Salida'' ''AR1587'' ''12:00'' ''ABC'')]"
  using exception_isolation
    [of "[vuelo ''Llegada'' ''AR1550'' ''10:00'' ''XYZ'', vuelo ''Llegada'' ''AR100'' ''10:30'' ''XYZ'']"
        "[vuelo ''Salida'' ''AR300'' ''11:00'' ''XYZ'', vuelo ''Salida'' ''AR1587'' ''12:00'' ''ABC'']"]
  by (auto simp: is_exception_def exception_vuelos_def excepcion_row_def)

section \<open>Registrations consumed by an exception flight\<close>

lemma consumed_by_exception:
  assumes "\<forall>f\<in>set (arrivals @ departures). hashable (matricula f)"
    and "r \<in> exception_matriculas (arrivals @ departures)"
  shows "\<exists>out. combine_arrivals_departures arrivals departures = Inr out \<and>
           filter (\<lambda>row. row_matricula row = r) out =
             map excepcion_row
               (filter (\<lambda>f. is_exception f \<and> matricula f = r) (arrivals @ departures))"
proof -
  let ?P1 = "exception_matriculas (arrivals @ departures)"
  let ?KA = "first_free ?P1 arrivals"
  let ?KD = "first_free (?P1 \<union> matricula ` set ?KA) departures"
  let ?Q = "\<lambda>row. row_matricula row = r"
  have e: "filter ?Q (map excepcion_row (filter is_exception (arrivals @ departures)))
           = map excepcion_row
               (filter (\<lambda>f. is_exception f \<and> matricula f = r) (arrivals @ departures))"
    by (simp add: filter_map comp_def excepcion_row_fields conj_commute)
  have a: "filter ?Q (map (row_for departures) ?KA) = []"
    using assms(2) by (intro filter_map_none) (auto simp: row_for_fields dest: first_free_props)
  have d: "filter ?Q (map solo_salida ?KD) = []"
    using assms(2) by (intro filter_map_none) (auto simp: solo_salida_fields dest: first_free_props)
  show ?thesis
    unfolding combine_eq[OF assms(1)] using e a d by simp
qed

text \<open>
  C10. If an exception flight has the empty string as its registration, the exception
  pass leaves the empty string among the consumed registrations, and the function
  returns an output whose rows with an empty registration are exactly the rows of the
  exception flights with an empty registration: no arrival and no departure that is not
  an exception and has an empty registration gets a row.
\<close>

theorem empty_registration_consumed:
  assumes "\<forall>f\<in>set (arrivals @ departures). hashable (matricula f)"
    and "\<exists>f\<in>set (arrivals @ departures). is_exception f \<and> matricula f = JStr ''''"
  shows "\<exists>cd P out.
     exception_pass (arrivals @ departures) ([], {}) = Inr (cd, P) \<and> JStr '''' \<in> P \<and>
     combine_arrivals_departures arrivals departures = Inr out \<and>
     filter (\<lambda>row. row_matricula row = JStr '''') out =
       map excepcion_row
         (filter (\<lambda>f. is_exception f \<and> matricula f = JStr '''') (arrivals @ departures))"
proof -
  from assms(2) obtain f where "f \<in> set (arrivals @ departures)" "is_exception f"
    "matricula f = JStr ''''" by blast
  then have m: "JStr '''' \<in> exception_matriculas (arrivals @ departures)"
    using exception_matriculas_mem[of f "arrivals @ departures"] by simp
  from consumed_by_exception[OF assms(1) m] obtain out where
    "combine_arrivals_departures arrivals departures = Inr out \<and>
     filter (\<lambda>row. row_matricula row = JStr '''') out =
       map excepcion_row
         (filter (\<lambda>f. is_exception f \<and> matricula f = JStr '''') (arrivals @ departures))" ..
  with m show ?thesis
    by (simp add: exception_pass_eq[OF assms(1)])
qed

theorem empty_registration_consumed_witness:
  "\<exists>cd P out.
     exception_pass
       ([vuelo ''Llegada'' ''AR1550'' ''10:00'' '''', vuelo ''Llegada'' ''AR100'' ''08:00'' ''''] @
        [vuelo ''Salida'' ''AR300'' ''11:00'' '''', vuelo ''Salida'' ''AR400'' ''12:00'' ''DEF''])
       ([], {}) = Inr (cd, P) \<and> JStr '''' \<in> P \<and>
     combine_arrivals_departures
       [vuelo ''Llegada'' ''AR1550'' ''10:00'' '''', vuelo ''Llegada'' ''AR100'' ''08:00'' '''']
       [vuelo ''Salida'' ''AR300'' ''11:00'' '''', vuelo ''Salida'' ''AR400'' ''12:00'' ''DEF'']
     = Inr out \<and>
     filter (\<lambda>row. row_matricula row = JStr '''') out =
       [solo_llegada (vuelo ''Llegada'' ''AR1550'' ''10:00'' '''')]"
  using empty_registration_consumed
    [of "[vuelo ''Llegada'' ''AR1550'' ''10:00'' '''', vuelo ''Llegada'' ''AR100'' ''08:00'' '''']"
        "[vuelo ''Salida'' ''AR300'' ''11:00'' '''', vuelo ''Salida'' ''AR400'' ''12:00'' ''DEF'']"]
  by (simp add: is_exception_def exception_vuelos_def excepcion_row_def)

section \<open>Registration exclusivity\<close>

text \<open>
  C4. For a registration that no exception flight carries and that occurs among the
  arrivals and among the departures, the output has exactly one row with that
  registration, and the row is a pair: the first arrival of the list with the
  registration, with the first departure of the list with the registration.
\<close>

theorem registration_exclusivity:
  assumes "\<forall>f\<in>set (arrivals @ departures). hashable (matricula f)"
    and "r \<notin> exception_matriculas (arrivals @ departures)"
    and "r \<in> matricula ` set arrivals"
    and "r \<in> matricula ` set departures"
  shows "\<exists>out a d. combine_arrivals_departures arrivals departures = Inr out \<and>
           List.find (\<lambda>f. matricula f = r) arrivals = Some a \<and>
           List.find (\<lambda>f. matricula f = r) departures = Some d \<and>
           filter (\<lambda>row. row_matricula row = r) out = [pareja a d]"
proof -
  let ?P1 = "exception_matriculas (arrivals @ departures)"
  let ?KA = "first_free ?P1 arrivals"
  let ?KD = "first_free (?P1 \<union> matricula ` set ?KA) departures"
  let ?Q = "\<lambda>row. row_matricula row = r"
  have ne: "\<And>f. f \<in> set (arrivals @ departures) \<Longrightarrow> matricula f = r \<Longrightarrow> \<not> is_exception f"
    using assms(2) exception_matriculas_mem by blast
  have fa: "List.find (\<lambda>f. matricula f = r \<and> \<not> is_exception f) arrivals
            = List.find (\<lambda>f. matricula f = r) arrivals"
    by (rule find_cong_set) (use ne in auto)
  obtain a where a: "List.find (\<lambda>f. matricula f = r) arrivals = Some a"
    using assms(3) by (cases "List.find (\<lambda>f. matricula f = r) arrivals") (auto simp: find_None_iff)
  obtain d where d: "List.find (\<lambda>f. matricula f = r) departures = Some d"
    using assms(4) by (cases "List.find (\<lambda>f. matricula f = r) departures") (auto simp: find_None_iff)
  from a have ma: "matricula a = r" by (auto simp: find_Some_iff)
  have fd: "List.find (candidate a) departures = List.find (\<lambda>f. matricula f = r) departures"
    by (rule find_cong_set) (use ne ma in \<open>auto simp: candidate_def\<close>)
  have ka: "filter (\<lambda>f. matricula f = r) ?KA = [a]"
    using assms(2) by (simp add: filter_first_free fa a)
  have e: "filter ?Q (map excepcion_row (filter is_exception (arrivals @ departures))) = []"
    by (rule filter_map_none)
       (use assms(2) exception_matriculas_mem in \<open>auto simp: excepcion_row_fields\<close>)
  have p: "filter ?Q (map (row_for departures) ?KA) = [pareja a d]"
    using ka by (simp add: filter_map comp_def row_for_fields) (simp add: row_for_def fd d)
  have "a \<in> set (filter (\<lambda>f. matricula f = r) ?KA)" unfolding ka by simp
  then have "a \<in> set ?KA" by simp
  then have "r \<in> matricula ` set ?KA" using ma by auto
  then have l: "filter ?Q (map solo_salida ?KD) = []"
    by (intro filter_map_none) (auto simp: solo_salida_fields dest: first_free_props)
  show ?thesis
    unfolding combine_eq[OF assms(1)] using e p l a d by simp
qed

theorem registration_exclusivity_witness:
  "\<exists>out. combine_arrivals_departures
            [vuelo ''Llegada'' ''AR100'' ''08:00'' ''ABC'', vuelo ''Llegada'' ''AR101'' ''08:30'' ''ABC'']
            [vuelo ''Salida'' ''AR200'' ''09:30'' ''ABC'', vuelo ''Salida'' ''AR201'' ''10:00'' ''ABC'']
          = Inr out \<and>
          filter (\<lambda>row. row_matricula row = JStr ''ABC'') out =
            [pareja (vuelo ''Llegada'' ''AR100'' ''08:00'' ''ABC'')
                    (vuelo ''Salida'' ''AR200'' ''09:30'' ''ABC'')]"
  using registration_exclusivity
    [of "[vuelo ''Llegada'' ''AR100'' ''08:00'' ''ABC'', vuelo ''Llegada'' ''AR101'' ''08:30'' ''ABC'']"
        "[vuelo ''Salida'' ''AR200'' ''09:30'' ''ABC'', vuelo ''Salida'' ''AR201'' ''10:00'' ''ABC'']"
        "JStr ''ABC''"]
  by (simp add: is_exception_def exception_vuelos_def exception_matriculas_def)

section \<open>Coverage of the input flights\<close>

lemma filter_first_free_found:
  "matricula a \<notin> P \<Longrightarrow>
   filter (\<lambda>f. matricula f = matricula a) (first_free P ds) = found ds a"
  by (simp add: filter_first_free found_def candidate_def[abs_def])

lemma mset_found:
  "distinct (map matricula K) \<Longrightarrow> \<forall>a\<in>set K. matricula a \<notin> P \<Longrightarrow>
   mset (concat (map (found ds) K)) =
     mset (filter (\<lambda>d. matricula d \<in> matricula ` set K) (first_free P ds))"
proof (induction K)
  case Nil
  show ?case by simp
next
  case (Cons a K)
  have "mset (filter (\<lambda>d. matricula d = matricula a \<or> matricula d \<in> matricula ` set K)
                (first_free P ds))
        = mset (filter (\<lambda>d. matricula d = matricula a) (first_free P ds)) +
          mset (filter (\<lambda>d. matricula d \<in> matricula ` set K) (first_free P ds))"
    using Cons.prems(1) by (intro mset_filter_disj) auto
  with Cons show ?case by (simp add: filter_first_free_found)
qed

text \<open>The departures paired by the second loop and those listed by the third are,
  together, the departures a loop over the departures alone would keep.\<close>

lemma mset_paired_leftover:
  "mset (concat (map (found ds) (first_free P as))) +
   mset (first_free (P \<union> matricula ` set (first_free P as)) ds) = mset (first_free P ds)"
proof -
  let ?K = "first_free P as"
  let ?R = "matricula ` set ?K"
  have "mset (concat (map (found ds) ?K)) = mset (filter (\<lambda>d. matricula d \<in> ?R) (first_free P ds))"
    by (intro mset_found distinct_first_free) (auto dest: first_free_props)
  then show ?thesis
    unfolding first_free_Un by (simp only: mset_filter_split)
qed

lemma render_excepcion_fila: "render (excepcion_fila f) = excepcion_row f"
  by (simp add: excepcion_fila_def excepcion_row_def)

lemma render_fila_for: "render (fila_for ds a) = row_for ds a"
  by (simp add: fila_for_def row_for_def split: option.splits)

lemma llegadas_excepcion:
  "concat (map (llegadas_de \<circ> excepcion_fila) fs) = filter (\<lambda>f. tipo f = ''Llegada'') fs"
  by (induction fs) (auto simp: excepcion_fila_def)

lemma salidas_excepcion:
  "concat (map (salidas_de \<circ> excepcion_fila) fs) = filter (\<lambda>f. tipo f \<noteq> ''Llegada'') fs"
  by (induction fs) (auto simp: excepcion_fila_def)

lemma llegadas_fila_for: "concat (map (llegadas_de \<circ> fila_for ds) as) = as"
  by (induction as) (auto simp: fila_for_def split: option.splits)

lemma salidas_fila_for: "concat (map (salidas_de \<circ> fila_for ds) as) = concat (map (found ds) as)"
  by (induction as) (auto simp: fila_for_def found_def split: option.splits)

lemma llegadas_Salida_sola: "concat (map (llegadas_de \<circ> Salida_sola) ds) = []"
  by (induction ds) auto

lemma salidas_Salida_sola: "concat (map (salidas_de \<circ> Salida_sola) ds) = ds"
  by (induction ds) auto

text \<open>
  C2, as the specification states it: every input flight appears in exactly one output
  row. With two arrivals of the same registration ABC and one departure of that
  registration, the output is the single pair of the first arrival with the departure:
  the second arrival, AR102, appears in no row.
\<close>

theorem total_coverage_counterexample:
  "combine_arrivals_departures
     [vuelo ''Llegada'' ''AR100'' ''08:00'' ''ABC'', vuelo ''Llegada'' ''AR102'' ''15:00'' ''ABC'']
     [vuelo ''Salida'' ''AR201'' ''09:00'' ''ABC'']
   = Inr [\<lparr>llegada = ''AR100'', salida = ''AR201'', hora_llegada = ''08:00'',
           hora_salida = ''09:00'', origen = JStr ''AEP'', destino = JStr ''AEP'',
           row_matricula = JStr ''ABC'', orden_temporal = None\<rparr>]"
  by (simp add: combine_arrivals_departures_def exception_vuelos_def pareja_def)

text \<open>
  C2, amended. Whenever the function returns (the registrations are hashable), its rows
  come from input flights, each a flight alone or an arrival with a departure, in such a
  way that no flight is used twice and the flights used are exactly these:
  every exception flight (on the side its kind says), and every flight that is no
  exception, whose registration no exception flight carries, and that is the first of
  its own list with its registration. The arrival sides of the rows, in order, are the
  exception arrivals followed by the arrivals kept; the departure sides are, counted
  with multiplicity, the exception departures and the departures kept. Every other
  flight appears in no row.
\<close>

theorem coverage_of_inputs:
  assumes "\<forall>f\<in>set (arrivals @ departures). hashable (matricula f)"
  shows "\<exists>filas.
     combine_arrivals_departures arrivals departures = Inr (map render filas) \<and>
     concat (map llegadas_de filas) =
       filter (\<lambda>f. is_exception f \<and> tipo f = ''Llegada'') (arrivals @ departures) @
       kept (exception_matriculas (arrivals @ departures)) arrivals \<and>
     mset (concat (map salidas_de filas)) =
       mset (filter (\<lambda>f. is_exception f \<and> tipo f \<noteq> ''Llegada'') (arrivals @ departures)) +
       mset (kept (exception_matriculas (arrivals @ departures)) departures)"
proof -
  let ?E = "filter is_exception (arrivals @ departures)"
  let ?P1 = "exception_matriculas (arrivals @ departures)"
  let ?KA = "first_free ?P1 arrivals"
  let ?KD = "first_free (?P1 \<union> matricula ` set ?KA) departures"
  let ?filas = "map excepcion_fila ?E @ map (fila_for departures) ?KA @ map Salida_sola ?KD"
  have ka: "?KA = kept ?P1 arrivals"
    by (rule first_free_kept) (auto simp: exception_matriculas_def)
  have kd: "first_free ?P1 departures = kept ?P1 departures"
    by (rule first_free_kept) (auto simp: exception_matriculas_def)
  have r: "combine_arrivals_departures arrivals departures = Inr (map render ?filas)"
    unfolding combine_eq[OF assms]
    by (simp add: comp_def render_excepcion_fila render_fila_for)
  have l: "concat (map llegadas_de ?filas) =
       filter (\<lambda>f. is_exception f \<and> tipo f = ''Llegada'') (arrivals @ departures) @
       kept ?P1 arrivals"
    unfolding ka[symmetric]
    by (simp add: llegadas_excepcion llegadas_fila_for llegadas_Salida_sola)
  have "mset (concat (map salidas_de ?filas)) =
       mset (filter (\<lambda>f. is_exception f \<and> tipo f \<noteq> ''Llegada'') (arrivals @ departures)) +
       (mset (concat (map (found departures) ?KA)) + mset ?KD)"
    by (simp add: salidas_excepcion salidas_fila_for salidas_Salida_sola)
  then have s: "mset (concat (map salidas_de ?filas)) =
       mset (filter (\<lambda>f. is_exception f \<and> tipo f \<noteq> ''Llegada'') (arrivals @ departures)) +
       mset (kept ?P1 departures)"
    unfolding kd[symmetric] mset_paired_leftover .
  show ?thesis
    by (intro exI[of _ ?filas] conjI r l s)
qed

theorem coverage_of_inputs_witness:
  "\<exists>filas.
     combine_arrivals_departures
       [vuelo ''Llegada'' ''AR1550'' ''10:00'' ''XYZ'', vuelo ''Llegada'' ''AR100'' ''08:00'' ''ABC'',
        vuelo ''Llegada'' ''AR101'' ''08:30'' ''ABC'']
       [vuelo ''Salida'' ''AR300'' ''11:00'' ''XYZ'', vuelo ''Salida'' ''AR200'' ''09:30'' ''ABC'']
     = Inr (map render filas) \<and>
     concat (map llegadas_de filas) =
       [vuelo ''Llegada'' ''AR1550'' ''10:00'' ''XYZ'', vuelo ''Llegada'' ''AR100'' ''08:00'' ''ABC''] \<and>
     mset (concat (map salidas_de filas)) = {#vuelo ''Salida'' ''AR200'' ''09:30'' ''ABC''#}"
  using coverage_of_inputs
    [of "[vuelo ''Llegada'' ''AR1550'' ''10:00'' ''XYZ'', vuelo ''Llegada'' ''AR100'' ''08:00'' ''ABC'',
          vuelo ''Llegada'' ''AR101'' ''08:30'' ''ABC'']"
        "[vuelo ''Salida'' ''AR300'' ''11:00'' ''XYZ'', vuelo ''Salida'' ''AR200'' ''09:30'' ''ABC'']"]
  by (simp add: is_exception_def exception_vuelos_def exception_matriculas_def kept_Cons kept_Nil)

section \<open>First departure found\<close>

text \<open>
  C9. For an arrival (with a hashable registration) and the registrations consumed so
  far, the inner loop returns the first departure, in the order of the list, that has
  the arrival's registration, a registration not consumed, and a number that is no
  exception: the departure at the least position that passes the test. The step of the
  outer loop for an arrival that is not skipped pairs the arrival with that departure,
  or lists it alone when there is none. The times play no part: with the arrival AR100
  at 08:00 and the departures AR200 at 20:00 and AR201 at 08:30, in this order and all
  of registration ABC, AR100 is paired with AR200.
\<close>

theorem first_found_matching:
  assumes "hashable (matricula arrival)"
  shows "matching_departure arrival P departures = Inr (List.find (eligible arrival P) departures) \<and>
    (matching_departure arrival P departures = Inr (Some d) \<longleftrightarrow>
       (\<exists>i<length departures. departures ! i = d \<and> eligible arrival P d \<and>
          (\<forall>j<i. \<not> eligible arrival P (departures ! j)))) \<and>
    (matricula arrival \<notin> P \<and> numero_vuelo arrival \<notin> exception_vuelos \<longrightarrow>
       matching_pass (arrival # rest) departures (cd, P) =
         matching_pass rest departures
           (cd @ [case List.find (eligible arrival P) departures of
                    Some d \<Rightarrow> pareja arrival d
                  | None \<Rightarrow> solo_llegada arrival],
            insert (matricula arrival) P)) \<and>
    combine_arrivals_departures
      [vuelo ''Llegada'' ''AR100'' ''08:00'' ''ABC'']
      [vuelo ''Salida'' ''AR200'' ''20:00'' ''ABC'', vuelo ''Salida'' ''AR201'' ''08:30'' ''ABC'']
    = Inr [pareja (vuelo ''Llegada'' ''AR100'' ''08:00'' ''ABC'')
                  (vuelo ''Salida'' ''AR200'' ''20:00'' ''ABC'')]"
proof (intro conjI)
  show f: "matching_departure arrival P departures = Inr (List.find (eligible arrival P) departures)"
    by (rule matching_departure_find[OF assms])
  show "matching_departure arrival P departures = Inr (Some d) \<longleftrightarrow>
       (\<exists>i<length departures. departures ! i = d \<and> eligible arrival P d \<and>
          (\<forall>j<i. \<not> eligible arrival P (departures ! j)))"
    unfolding f by (auto simp: find_Some_iff)
  show "matricula arrival \<notin> P \<and> numero_vuelo arrival \<notin> exception_vuelos \<longrightarrow>
       matching_pass (arrival # rest) departures (cd, P) =
         matching_pass rest departures
           (cd @ [case List.find (eligible arrival P) departures of
                    Some d \<Rightarrow> pareja arrival d
                  | None \<Rightarrow> solo_llegada arrival],
            insert (matricula arrival) P)"
  proof
    assume a: "matricula arrival \<notin> P \<and> numero_vuelo arrival \<notin> exception_vuelos"
    show "matching_pass (arrival # rest) departures (cd, P) =
         matching_pass rest departures
           (cd @ [case List.find (eligible arrival P) departures of
                    Some d \<Rightarrow> pareja arrival d
                  | None \<Rightarrow> solo_llegada arrival],
            insert (matricula arrival) P)"
    proof (cases "List.find (eligible arrival P) departures")
      case None
      with a assms show ?thesis by (simp add: f)
    next
      case (Some d)
      then have "matricula d = matricula arrival" by (auto simp: find_Some_iff eligible_def)
      with Some a assms show ?thesis by (simp add: f)
    qed
  qed
  show "combine_arrivals_departures
      [vuelo ''Llegada'' ''AR100'' ''08:00'' ''ABC'']
      [vuelo ''Salida'' ''AR200'' ''20:00'' ''ABC'', vuelo ''Salida'' ''AR201'' ''08:30'' ''ABC'']
    = Inr [pareja (vuelo ''Llegada'' ''AR100'' ''08:00'' ''ABC'')
                  (vuelo ''Salida'' ''AR200'' ''20:00'' ''ABC'')]"
    by (simp add: combine_arrivals_departures_def exception_vuelos_def)
qed

theorem first_found_matching_witness:
  "matching_departure (vuelo ''Llegada'' ''AR100'' ''08:00'' ''ABC'') {JStr ''XYZ''}
     [vuelo ''Salida'' ''AR300'' ''07:00'' ''XYZ'', vuelo ''Salida'' ''AR1551'' ''07:30'' ''ABC'',
      vuelo ''Salida'' ''AR200'' ''20:00'' ''ABC'', vuelo ''Salida'' ''AR201'' ''08:30'' ''ABC'']
   = Inr (Some (vuelo ''Salida'' ''AR200'' ''20:00'' ''ABC''))"
  using first_found_matching
    [of "vuelo ''Llegada'' ''AR100'' ''08:00'' ''ABC''" "{JStr ''XYZ''}"
        "[vuelo ''Salida'' ''AR300'' ''07:00'' ''XYZ'', vuelo ''Salida'' ''AR1551'' ''07:30'' ''ABC'',
          vuelo ''Salida'' ''AR200'' ''20:00'' ''ABC'', vuelo ''Salida'' ''AR201'' ''08:30'' ''ABC'']"]
  by (simp add: eligible_def exception_vuelos_def)

section \<open>The extractor\<close>

lemma py_bind_simps [simp]:
  "py_bind (Inr v) k = k v"
  "py_bind (Inl e) k = Inl e"
  by (simp_all add: py_bind_def)

lemma py_bind_Inr_iff: "py_bind m k = Inr y \<longleftrightarrow> (\<exists>v. m = Inr v \<and> k v = Inr y)"
  by (cases m) auto

lemma process_flight_Some:
  assumes "process_flight flight flight_type s e = Inr (Some info)"
  shows "\<exists>airline raw registration airport time_str.
     get_path flight [(''flight'', JObj []), (''airline'', JObj [])] = Inr airline \<and>
     get_path airline [(''code'', JObj []), (''iata'', JStr '''')] = Inr (JStr ''AR'') \<and>
     flight_number_raw flight = Inr (JStr raw) \<and>
     get_path flight
       [(''flight'', JObj []), (''aircraft'', JObj []), (''registration'', JStr '''')]
       = Inr registration \<and>
     flight_time_of flight flight_type = Inr (JInt (timestamp info)) \<and>
     s \<le> timestamp info \<and> timestamp info \<le> e \<and>
     (if flight_type = ''arrivals''
      then get_path flight
             [(''flight'', JObj []), (''airport'', JObj []), (''origin'', JObj []),
              (''code'', JObj []), (''iata'', JStr '''')]
      else get_path flight
             [(''flight'', JObj []), (''airport'', JObj []), (''destination'', JObj []),
              (''code'', JObj []), (''iata'', JStr '''')]) = Inr airport \<and>
     (if timestamp info \<noteq> 0 then hora_art (timestamp info) else Inr '''') = Inr time_str \<and>
     info = \<lparr>tipo = (if flight_type = ''arrivals'' then ''Llegada'' else ''Salida''),
             numero_vuelo = add_carrier_prefix (strip_carrier_prefix raw),
             hora = time_str, aeropuerto = airport, matricula = registration,
             timestamp = timestamp info\<rparr>"
  using assms unfolding process_flight_def
  by (auto simp: py_bind_Inr_iff split: if_splits json.splits)

section \<open>Flight numbers\<close>

text \<open>
  C6. Taking a flight number through the two steps of the extractor (strip one leading
  AR, put AR in front) a second time changes nothing; a number that starts with AR is
  left as it is, so AR1234 gives AR1234.
\<close>

theorem normalize_idempotent:
  "normalize_flight_number (normalize_flight_number raw) = normalize_flight_number raw \<and>
   normalize_flight_number (''AR'' @ rest) = ''AR'' @ rest \<and>
   normalize_flight_number ''AR1234'' = ''AR1234''"
  by (simp add: normalize_flight_number_def add_carrier_prefix_def strip_carrier_prefix_def)

lemma digits_not_prefixed: "set ds \<subseteq> set ''0123456789'' \<Longrightarrow> take 2 ds \<noteq> ''AR''"
proof
  assume d: "set ds \<subseteq> set ''0123456789''" and t: "take 2 ds = ''AR''"
  from t have "CHR ''A'' \<in> set (take 2 ds)" by simp
  then have "CHR ''A'' \<in> set ds" by (rule in_set_takeD)
  with d show False by auto
qed

text \<open>
  C5, as the specification states it: a doubly prefixed number of the provider, ARAR1234,
  would be stored as AR1234. The extractor stores it as ARAR1234.
\<close>

theorem double_prefix_counterexample:
  "process_flight_data [raw_flight ''ARAR1234'' ''LV-ABC'' 1700000000 0] ''arrivals''
     1700000000 1700086400
   = [\<lparr>tipo = ''Llegada'', numero_vuelo = ''ARAR1234'', hora = ''19:13'',
       aeropuerto = JStr ''AEP'', matricula = JStr ''LV-ABC'', timestamp = 1700000000\<rparr>]"
  by (simp add: process_flight_def flight_number_raw_def flight_time_of_def
        strip_carrier_prefix_def add_carrier_prefix_def hora_art_def two_digits_def)

text \<open>
  C5, amended. For every flight the extractor accepts, the provider's number is a string,
  and the number stored is that string with AR put in front unless it already starts with
  AR, in which case it is stored unchanged: one leading AR is stripped and AR is put
  back. The number stored always starts with AR, and it is AR followed by the digits
  whenever the provider's number is the digits alone or AR followed by the digits.
\<close>

theorem stored_flight_number:
  assumes "process_flight flight flight_type start_timestamp end_timestamp = Inr (Some info)"
  shows "\<exists>raw. flight_number_raw flight = Inr (JStr raw) \<and>
     numero_vuelo info = normalize_flight_number raw \<and>
     numero_vuelo info = (if take 2 raw = ''AR'' then raw else ''AR'' @ raw) \<and>
     take 2 (numero_vuelo info) = ''AR'' \<and>
     (\<forall>ds. set ds \<subseteq> set ''0123456789'' \<and> (raw = ds \<or> raw = ''AR'' @ ds) \<longrightarrow>
            numero_vuelo info = ''AR'' @ ds)"
proof -
  from process_flight_Some[OF assms] obtain raw where
    r: "flight_number_raw flight = Inr (JStr raw)" and
    n: "numero_vuelo info = add_carrier_prefix (strip_carrier_prefix raw)"
    by (metis flight_info.select_convs(2))
  have p: "''AR'' @ drop 2 raw = raw" if "take 2 raw = ''AR''"
    using append_take_drop_id[of 2 raw] unfolding that .
  have e: "numero_vuelo info = (if take 2 raw = ''AR'' then raw else ''AR'' @ raw)"
    unfolding n add_carrier_prefix_def strip_carrier_prefix_def
    using p by simp
  have d: "numero_vuelo info = ''AR'' @ ds"
    if "set ds \<subseteq> set ''0123456789'' \<and> (raw = ds \<or> raw = ''AR'' @ ds)" for ds
    using that digits_not_prefixed[of ds] unfolding e by auto
  have m: "numero_vuelo info = normalize_flight_number raw"
    by (simp add: n normalize_flight_number_def)
  have t: "take 2 (numero_vuelo info) = ''AR''"
    unfolding n add_carrier_prefix_def by simp
  from r m e t d show ?thesis by blast
qed

theorem stored_flight_number_witness:
  "flight_number_raw (raw_flight ''1234'' ''LV-ABC'' 1700000000 0) = Inr (JStr ''1234'') \<and>
   (\<exists>info. process_flight (raw_flight ''1234'' ''LV-ABC'' 1700000000 0) ''arrivals''
              1700000000 1700086400 = Inr (Some info) \<and>
            numero_vuelo info = ''AR1234'')"
proof -
  have h: "process_flight (raw_flight ''1234'' ''LV-ABC'' 1700000000 0) ''arrivals''
     1700000000 1700086400
   = Inr (Some \<lparr>tipo = ''Llegada'', numero_vuelo = ''AR1234'', hora = ''19:13'',
                 aeropuerto = JStr ''AEP'', matricula = JStr ''LV-ABC'',
                 timestamp = 1700000000\<rparr>)"
    by (simp add: process_flight_def flight_number_raw_def flight_time_of_def
          strip_carrier_prefix_def add_carrier_prefix_def hora_art_def two_digits_def)
  from stored_flight_number[OF h] obtain raw where
    "flight_number_raw (raw_flight ''1234'' ''LV-ABC'' 1700000000 0) = Inr (JStr raw)"
    "numero_vuelo \<lparr>tipo = ''Llegada'', numero_vuelo = ''AR1234'', hora = ''19:13'',
                 aeropuerto = JStr ''AEP'', matricula = JStr ''LV-ABC'',
                 timestamp = 1700000000\<rparr> = (if take 2 raw = ''AR'' then raw else ''AR'' @ raw)"
    by blast
  then show ?thesis using h by (simp add: flight_number_raw_def)
qed

section \<open>The time window\<close>

text \<open>
  C7. For a flight that the extractor keeps under some window, with effective time
  \<open>timestamp info\<close> (the estimated time if it is true, else the scheduled time), and for
  every window: the flight is kept, with the same record, if and only if the effective
  time is at least the start and at most the end, and it is dropped otherwise. It is
  kept when the effective time equals the start or the end, and dropped when the start
  is one second later or the end one second earlier. The list returned for the flight
  alone holds its record in the first case and is empty in the second.
\<close>

theorem window_inclusive:
  assumes "process_flight flight flight_type start0 end0 = Inr (Some info)"
  shows "flight_time_of flight flight_type = Inr (JInt (timestamp info)) \<and>
    process_flight flight flight_type start_timestamp end_timestamp =
      (if start_timestamp \<le> timestamp info \<and> timestamp info \<le> end_timestamp
       then Inr (Some info) else Inr None) \<and>
    process_flight flight flight_type (timestamp info) (timestamp info) = Inr (Some info) \<and>
    process_flight flight flight_type (timestamp info + 1) end_timestamp = Inr None \<and>
    process_flight flight flight_type start_timestamp (timestamp info - 1) = Inr None \<and>
    process_flight_data [flight] flight_type start_timestamp end_timestamp =
      (if start_timestamp \<le> timestamp info \<and> timestamp info \<le> end_timestamp
       then [info] else [])"
proof -
  from process_flight_Some[OF assms] obtain airline raw registration airport time_str where
    1: "get_path flight [(''flight'', JObj []), (''airline'', JObj [])] = Inr airline" and
    2: "get_path airline [(''code'', JObj []), (''iata'', JStr '''')] = Inr (JStr ''AR'')" and
    3: "flight_number_raw flight = Inr (JStr raw)" and
    4: "get_path flight
         [(''flight'', JObj []), (''aircraft'', JObj []), (''registration'', JStr '''')]
         = Inr registration" and
    5: "flight_time_of flight flight_type = Inr (JInt (timestamp info))" and
    6: "(if flight_type = ''arrivals''
      then get_path flight
             [(''flight'', JObj []), (''airport'', JObj []), (''origin'', JObj []),
              (''code'', JObj []), (''iata'', JStr '''')]
      else get_path flight
             [(''flight'', JObj []), (''airport'', JObj []), (''destination'', JObj []),
              (''code'', JObj []), (''iata'', JStr '''')]) = Inr airport" and
    7: "(if timestamp info \<noteq> 0 then hora_art (timestamp info) else Inr '''') = Inr time_str" and
    8: "info = \<lparr>tipo = (if flight_type = ''arrivals'' then ''Llegada'' else ''Salida''),
             numero_vuelo = add_carrier_prefix (strip_carrier_prefix raw),
             hora = time_str, aeropuerto = airport, matricula = registration,
             timestamp = timestamp info\<rparr>"
    by blast
  have w: "process_flight flight flight_type s e =
      (if s \<le> timestamp info \<and> timestamp info \<le> e then Inr (Some info) else Inr None)"
    for s e
    unfolding process_flight_def
    by (simp only: 1 2 3 4 5 6 7 py_bind_simps json.case refl if_False not_True_eq_False simp_thms)
       (use 8 in simp)
  show ?thesis
    using 5 w by simp
qed

theorem window_inclusive_witness:
  "process_flight (raw_flight ''AR1234'' ''LV-ABC'' 1700000000 0) ''arrivals''
     1700000000 1700086400
   = Inr (Some \<lparr>tipo = ''Llegada'', numero_vuelo = ''AR1234'', hora = ''19:13'',
                 aeropuerto = JStr ''AEP'', matricula = JStr ''LV-ABC'',
                 timestamp = 1700000000\<rparr>) \<and>
   process_flight (raw_flight ''AR1234'' ''LV-ABC'' 1700000000 0) ''arrivals''
     1699913600 1700000000
   = Inr (Some \<lparr>tipo = ''Llegada'', numero_vuelo = ''AR1234'', hora = ''19:13'',
                 aeropuerto = JStr ''AEP'', matricula = JStr ''LV-ABC'',
                 timestamp = 1700000000\<rparr>) \<and>
   process_flight (raw_flight ''AR1234'' ''LV-ABC'' 1700000000 0) ''arrivals''
     1700000001 1700086401 = Inr None \<and>
   process_flight (raw_flight ''AR1234'' ''LV-ABC'' 1700000000 0) ''arrivals''
     1699913599 1699999999 = Inr None"
proof -
  have h: "process_flight (raw_flight ''AR1234'' ''LV-ABC'' 1700000000 0) ''arrivals''
     1700000000 1700086400
   = Inr (Some \<lparr>tipo = ''Llegada'', numero_vuelo = ''AR1234'', hora = ''19:13'',
                 aeropuerto = JStr ''AEP'', matricula = JStr ''LV-ABC'',
                 timestamp = 1700000000\<rparr>)"
    by (simp add: process_flight_def flight_number_raw_def flight_time_of_def
          strip_carrier_prefix_def add_carrier_prefix_def hora_art_def two_digits_def)
  show ?thesis
    using h window_inclusive[OF h] by simp
qed

section \<open>The order of the output\<close>

lemma sort_keys_set:
  "sort_keys (map set_orden_temporal cd) =
     Inr (map (\<lambda>x. (sort_key_of x, set_orden_temporal x)) cd)"
  by (induction cd) (auto simp: set_orden_temporal_def)

lemma del_orden_temporal_all:
  "\<forall>x\<in>set xs. orden_temporal x \<noteq> None \<Longrightarrow>
   del_orden_temporal xs = Inr (map (\<lambda>item. item\<lparr>orden_temporal := None\<rparr>) xs)"
  by (induction xs) auto

lemma sort_key_of_update [simp]: "sort_key_of (item\<lparr>orden_temporal := k\<rparr>) = sort_key_of item"
  by (simp add: sort_key_of_def)

lemma sorted_output:
  assumes "\<forall>row\<in>set cd. orden_temporal row = None"
  shows "\<exists>out. py_bind (sort_by_orden_temporal (map set_orden_temporal cd)) del_orden_temporal
                 = Inr out \<and>
           mset out = mset cd \<and> sorted (map sort_key_of out) \<and>
           (\<forall>row\<in>set out. orden_temporal row = None)"
proof -
  let ?kxs = "map (\<lambda>x. (sort_key_of x, set_orden_temporal x)) cd"
  let ?srt = "sort_key fst ?kxs"
  let ?clear = "\<lambda>item. item\<lparr>orden_temporal := None\<rparr>"
  let ?out = "map ?clear (map snd ?srt)"
  have s: "sort_by_orden_temporal (map set_orden_temporal cd) = Inr (map snd ?srt)"
    by (simp add: sort_by_orden_temporal_def sort_keys_set)
  have "\<forall>x\<in>set (map snd ?srt). orden_temporal x \<noteq> None"
    by (auto simp: set_orden_temporal_def)
  then have d: "del_orden_temporal (map snd ?srt) = Inr ?out"
    by (rule del_orden_temporal_all)
  have r: "py_bind (sort_by_orden_temporal (map set_orden_temporal cd)) del_orden_temporal
           = Inr ?out"
    by (simp add: s d py_bind_def)
  have "?out = map (\<lambda>p. ?clear (snd p)) ?srt"
    by (simp only: map_map comp_def)
  then have "mset ?out = mset (map (\<lambda>p. ?clear (snd p)) ?kxs)"
    by (simp only: mset_map mset_sort)
  also have "map (\<lambda>p. ?clear (snd p)) ?kxs = map (\<lambda>x. x) cd"
    unfolding map_map comp_def using assms
    by (intro map_cong) (auto simp: set_orden_temporal_def)
  finally have m: "mset ?out = mset cd" by simp
  have "map sort_key_of ?out = map fst ?srt"
    unfolding map_map comp_def
    by (intro map_cong) (auto simp: set_orden_temporal_def)
  then have o: "sorted (map sort_key_of ?out)"
    by (simp only: sorted_sort_key)
  have n: "\<forall>row\<in>set ?out. orden_temporal row = None"
    by auto
  from r m o n show ?thesis by blast
qed

lemma combine_rows_no_key:
  assumes "\<forall>f\<in>set (arrivals @ departures). hashable (matricula f)"
    and "combine_arrivals_departures arrivals departures = Inr cd"
  shows "\<forall>row\<in>set cd. orden_temporal row = None"
  using assms(2) unfolding combine_eq[OF assms(1)]
  by (auto simp: excepcion_row_fields row_for_fields solo_salida_fields)

text \<open>
  C8. When the registrations of the extracted flights are hashable,
  \<^verbatim>\<open>combine_arrivals_departures\<close> returns its rows and \<^verbatim>\<open>main\<close> returns the same rows
  (as a multiset), in non-decreasing order of the sort key (the time of arrival if it is
  not empty, else the time of departure) for the lexicographic order on strings, and
  none of the rows returned has the key \<^verbatim>\<open>'orden_temporal'\<close>.
\<close>

theorem main_sorted:
  assumes "\<forall>f\<in>set (process_flight_data arrivals_raw ''arrivals'' start_timestamp end_timestamp @
                   process_flight_data departures_raw ''departures'' start_timestamp end_timestamp).
             hashable (matricula f)"
  shows "\<exists>combined_data out.
     combine_arrivals_departures
       (process_flight_data arrivals_raw ''arrivals'' start_timestamp end_timestamp)
       (process_flight_data departures_raw ''departures'' start_timestamp end_timestamp)
     = Inr combined_data \<and>
     main arrivals_raw departures_raw start_timestamp end_timestamp = Inr out \<and>
     mset out = mset combined_data \<and>
     sorted (map sort_key_of out) \<and>
     (\<forall>row\<in>set out. orden_temporal row = None)"
proof -
  let ?A = "process_flight_data arrivals_raw ''arrivals'' start_timestamp end_timestamp"
  let ?D = "process_flight_data departures_raw ''departures'' start_timestamp end_timestamp"
  from combine_eq[OF assms] obtain cd where c: "combine_arrivals_departures ?A ?D = Inr cd"
    by blast
  have k: "\<forall>row\<in>set cd. orden_temporal row = None"
    by (rule combine_rows_no_key[OF assms c])
  from sorted_output[OF k] obtain out where
    o: "py_bind (sort_by_orden_temporal (map set_orden_temporal cd)) del_orden_temporal = Inr out"
    and p: "mset out = mset cd" "sorted (map sort_key_of out)"
       "\<forall>row\<in>set out. orden_temporal row = None"
    by blast
  have e: "cd = []" if "?A = [] \<and> ?D = []"
    using c that by (simp add: combine_arrivals_departures_def)
  have "main arrivals_raw departures_raw start_timestamp end_timestamp = Inr out"
  proof (cases "cd = []")
    case True
    with p(1) have "out = []" by simp
    with True c show ?thesis by (simp add: main_def Let_def py_bind_def)
  next
    case False
    with e have ne: "\<not> (?A = [] \<and> ?D = [])" by blast
    show ?thesis
      unfolding main_def Let_def if_not_P[OF ne] c py_bind_simps if_not_P[OF False] o ..
  qed
  with c p show ?thesis by blast
qed

theorem main_sorted_witness:
  "main [raw_flight ''AR1234'' ''LV-ABC'' 1700050000 0, raw_flight ''AR1550'' ''LV-XYZ'' 1700000000 0]
        [] 1700000000 1700086400
   = Inr [\<lparr>llegada = ''AR1234'', salida = '''', hora_llegada = ''09:06'', hora_salida = '''',
           origen = JStr ''AEP'', destino = JStr '''', row_matricula = JStr ''LV-ABC'',
           orden_temporal = None\<rparr>,
          \<lparr>llegada = ''AR1550'', salida = '''', hora_llegada = ''19:13'', hora_salida = '''',
           origen = JStr ''AEP'', destino = JStr '''', row_matricula = JStr ''LV-XYZ'',
           orden_temporal = None\<rparr>]"
proof -
  have a: "process_flight_data
             [raw_flight ''AR1234'' ''LV-ABC'' 1700050000 0,
              raw_flight ''AR1550'' ''LV-XYZ'' 1700000000 0]
             ''arrivals'' 1700000000 1700086400
           = [\<lparr>tipo = ''Llegada'', numero_vuelo = ''AR1234'', hora = ''09:06'',
                aeropuerto = JStr ''AEP'', matricula = JStr ''LV-ABC'', timestamp = 1700050000\<rparr>,
              \<lparr>tipo = ''Llegada'', numero_vuelo = ''AR1550'', hora = ''19:13'',
                aeropuerto = JStr ''AEP'', matricula = JStr ''LV-XYZ'', timestamp = 1700000000\<rparr>]"
    by (simp add: process_flight_def flight_number_raw_def flight_time_of_def
          strip_carrier_prefix_def add_carrier_prefix_def hora_art_def two_digits_def)
  have d: "process_flight_data [] ''departures'' 1700000000 1700086400 = []" by simp
  have c: "combine_arrivals_departures
             [\<lparr>tipo = ''Llegada'', numero_vuelo = ''AR1234'', hora = ''09:06'',
                aeropuerto = JStr ''AEP'', matricula = JStr ''LV-ABC'', timestamp = 1700050000\<rparr>,
              \<lparr>tipo = ''Llegada'', numero_vuelo = ''AR1550'', hora = ''19:13'',
                aeropuerto = JStr ''AEP'', matricula = JStr ''LV-XYZ'', timestamp = 1700000000\<rparr>] []
           = Inr [\<lparr>llegada = ''AR1550'', salida = '''', hora_llegada = ''19:13'', hora_salida = '''',
           origen = JStr ''AEP'', destino = JStr '''', row_matricula = JStr ''LV-XYZ'',
           orden_temporal = None\<rparr>, \<lparr>llegada = ''AR1234'', salida = '''', hora_llegada = ''09:06'', hora_salida = '''',
           origen = JStr ''AEP'', destino = JStr '''', row_matricula = JStr ''LV-ABC'',
           orden_temporal = None\<rparr>]"
    by (simp add: combine_arrivals_departures_def exception_vuelos_def solo_llegada_def)
  show ?thesis
    using main_sorted
      [of "[raw_flight ''AR1234'' ''LV-ABC'' 1700050000 0,
            raw_flight ''AR1550'' ''LV-XYZ'' 1700000000 0]" 1700000000 1700086400 "[]"]
    by (simp add: main_def a d Let_def c py_bind_def sort_by_orden_temporal_def
          set_orden_temporal_def sort_key_of_def del: process_flight_data.simps)
qed

end
